theory Spec2Isabelle
  imports Main "HOL-Library.Char_ord" "HOL-Library.List_Lexorder" "HOL-Library.Multiset"
begin

section \<open>Strings\<close>

text \<open>
  JavaScript strings are modelled as HOL strings: a character is a code unit below
  256, and strings are compared code unit by code unit, as the language does. The
  functions below are the library calls the sources use: \<^verbatim>\<open>split\<close> and
  \<^verbatim>\<open>join\<close> with a one-character separator, the conversion of an integer to
  its decimal text (template literals, property keys) and \<^verbatim>\<open>parseInt\<close>.
  Code units from 256 on (and with them the other Unicode white space and line
  terminators) are outside the model.
\<close>

fun split_on :: "char \<Rightarrow> string \<Rightarrow> string list" where
  "split_on sep [] = [[]]"
| "split_on sep (c # cs) =
     (if c = sep then [] # split_on sep cs
      else (case split_on sep cs of
              [] \<Rightarrow> [[c]]
            | p # ps \<Rightarrow> (c # p) # ps))"

fun join :: "string \<Rightarrow> string list \<Rightarrow> string" where
  "join sep [] = []"
| "join sep [x] = x"
| "join sep (x # y # ys) = x @ sep @ join sep (y # ys)"

definition digit_char :: "nat \<Rightarrow> char" where
  "digit_char d = char_of (48 + d)"

function show_nat :: "nat \<Rightarrow> string" where
  "show_nat n = (if n < 10 then [digit_char n] else show_nat (n div 10) @ [digit_char (n mod 10)])"
  by pat_completeness auto
termination
  by (relation "measure id") auto

declare show_nat.simps [simp del]

definition show_int :: "int \<Rightarrow> string" where
  "show_int i = (if i < 0 then CHR ''-'' # show_nat (nat (- i)) else show_nat (nat i))"

definition is_space :: "char \<Rightarrow> bool" where
  "is_space c = (of_char c \<in> {9, 10, 11, 12, 13, 32, 160 :: nat})"

text \<open>The value of a character as a digit of the given radix, if it is one.\<close>

definition digit_val :: "nat \<Rightarrow> char \<Rightarrow> nat option" where
  "digit_val radix c =
     (let n = (of_char c :: nat);
          v = (if 48 \<le> n \<and> n \<le> 57 then Some (n - 48)
               else if 97 \<le> n \<and> n \<le> 122 then Some (n - 87)
               else if 65 \<le> n \<and> n \<le> 90 then Some (n - 55)
               else None)
      in (case v of
            None \<Rightarrow> None
          | Some d \<Rightarrow> if d < radix then Some d else None))"

fun digits_val :: "nat \<Rightarrow> int \<Rightarrow> string \<Rightarrow> int" where
  "digits_val radix acc [] = acc"
| "digits_val radix acc (c # cs) =
     (case digit_val radix c of
        None \<Rightarrow> acc
      | Some d \<Rightarrow> digits_val radix (acc * int radix + int d) cs)"

text \<open>
  \<^verbatim>\<open>parseInt(s)\<close> without a radix: leading white space is skipped, a sign is
  read, a \<^verbatim>\<open>0x\<close> prefix selects radix 16, and the longest prefix of digits is
  the value; \<open>None\<close> is \<^verbatim>\<open>NaN\<close>.
\<close>

definition parseInt :: "string \<Rightarrow> int option" where
  "parseInt s =
     (let s1 = dropWhile is_space s;
          neg = (s1 \<noteq> [] \<and> hd s1 = CHR ''-'');
          s2 = (if s1 \<noteq> [] \<and> (hd s1 = CHR ''-'' \<or> hd s1 = CHR ''+'') then tl s1 else s1);
          hex = (take 2 s2 = ''0x'' \<or> take 2 s2 = ''0X'');
          radix = (if hex then 16 else 10);
          s3 = (if hex then drop 2 s2 else s2)
      in (case s3 of
            [] \<Rightarrow> None
          | c # cs \<Rightarrow>
              (case digit_val radix c of
                 None \<Rightarrow> None
               | Some d \<Rightarrow>
                   Some (if neg then - digits_val radix 0 s3
                         else digits_val radix 0 s3))))"

text \<open>
  An array index in the sense of the language: the canonical decimal text of a number
  below \<open>2^32 - 1\<close>.
\<close>

definition array_index :: "string \<Rightarrow> nat option" where
  "array_index s =
     (if s \<noteq> [] \<and> list_all (\<lambda>c. digit_val 10 c \<noteq> None) s
         \<and> (s = ''0'' \<or> hd s \<noteq> CHR ''0'')
         \<and> digits_val 10 0 s < 4294967295
      then Some (nat (digits_val 10 0 s)) else None)"

section \<open>Documents\<close>

text \<open>
  A document is a JSON-like value. \<open>JUndef\<close> is JavaScript's
  \<^verbatim>\<open>undefined\<close>: what reading a missing property gives, and the content of
  a hole of an array. Numbers are integers, taken exactly (no rounding of large
  values, no exponent notation in their text). An object is the list of its own
  properties in the order \<^verbatim>\<open>Object.keys\<close> reports them; an array has its
  elements and, like every JavaScript array, may carry further named properties.
  Values are held by value: sharing of one nested object between two documents is not
  tracked. A property is an own property: the members a value inherits from its
  prototype (\<^verbatim>\<open>toString\<close>, \<^verbatim>\<open>constructor\<close>, \<^verbatim>\<open>__proto__\<close>,
  \<^verbatim>\<open>push\<close>, ...) and the \<^verbatim>\<open>length\<close> of an array are not properties
  of the model, so a path or key that names one of them is outside it. A statement
  below that ranges over all names or paths excludes these names where it would not
  hold for them.
\<close>

datatype json =
    JUndef
  | JNull
  | JBool bool
  | JNum int
  | JStr string
  | JObj "(string \<times> json) list"
  | JArr "json list" "(string \<times> json) list"

datatype error =
    UnnamedArray string string
  | TypeError
  | RangeError
  | SyntaxError

definition ebind :: "error + 'a \<Rightarrow> ('a \<Rightarrow> error + 'b) \<Rightarrow> error + 'b" where
  "ebind m f = (case m of Inl e \<Rightarrow> Inl e | Inr x \<Rightarrow> f x)"

fun truthy :: "json \<Rightarrow> bool" where
  "truthy JUndef = False"
| "truthy JNull = False"
| "truthy (JBool b) = b"
| "truthy (JNum n) = (n \<noteq> 0)"
| "truthy (JStr s) = (s \<noteq> [])"
| "truthy (JObj ps) = True"
| "truthy (JArr es ps) = True"

fun nullish :: "json \<Rightarrow> bool" where
  "nullish JUndef = True"
| "nullish JNull = True"
| "nullish v = False"

text \<open>\<^verbatim>\<open>typeof v === 'object'\<close>: objects, arrays and \<^verbatim>\<open>null\<close>.\<close>

fun typeof_object :: "json \<Rightarrow> bool" where
  "typeof_object JNull = True"
| "typeof_object (JObj ps) = True"
| "typeof_object (JArr es ps) = True"
| "typeof_object v = False"

fun is_array :: "json \<Rightarrow> bool" where
  "is_array (JArr es ps) = True"
| "is_array v = False"

subsection \<open>Own properties\<close>

fun lookup :: "(string \<times> 'a) list \<Rightarrow> string \<Rightarrow> 'a option" where
  "lookup [] k = None"
| "lookup ((k', v) # ps) k = (if k' = k then Some v else lookup ps k)"

fun replace :: "string \<Rightarrow> 'a \<Rightarrow> (string \<times> 'a) list \<Rightarrow> (string \<times> 'a) list" where
  "replace k v [] = []"
| "replace k v ((k', v') # ps) = (if k' = k then (k, v) # ps else (k', v') # replace k v ps)"

text \<open>
  A new property whose key is an array index goes among the index keys at the front,
  in ascending order; any other new key goes to the end.
\<close>

fun insert_index :: "nat \<Rightarrow> string \<Rightarrow> 'a \<Rightarrow> (string \<times> 'a) list \<Rightarrow> (string \<times> 'a) list" where
  "insert_index i k v [] = [(k, v)]"
| "insert_index i k v ((k', v') # ps) =
     (case array_index k' of
        None \<Rightarrow> (k, v) # (k', v') # ps
      | Some j \<Rightarrow> if j < i then (k', v') # insert_index i k v ps else (k, v) # (k', v') # ps)"

definition rec_set :: "(string \<times> 'a) list \<Rightarrow> string \<Rightarrow> 'a \<Rightarrow> (string \<times> 'a) list" where
  "rec_set ps k v =
     (case lookup ps k of
        Some old \<Rightarrow> replace k v ps
      | None \<Rightarrow>
          (case array_index k of
             None \<Rightarrow> ps @ [(k, v)]
           | Some i \<Rightarrow> insert_index i k v ps))"

definition rec_delete :: "(string \<times> 'a) list \<Rightarrow> string \<Rightarrow> (string \<times> 'a) list" where
  "rec_delete ps k = filter (\<lambda>p. fst p \<noteq> k) ps"

text \<open>Reading \<^verbatim>\<open>x[k]\<close>: a type error on \<^verbatim>\<open>null\<close> and \<^verbatim>\<open>undefined\<close>.\<close>

fun get_prop :: "json \<Rightarrow> string \<Rightarrow> error + json" where
  "get_prop JUndef k = Inl TypeError"
| "get_prop JNull k = Inl TypeError"
| "get_prop (JBool b) k = Inr JUndef"
| "get_prop (JNum n) k = Inr JUndef"
| "get_prop (JStr s) k =
     (case array_index k of
        None \<Rightarrow> Inr JUndef
      | Some i \<Rightarrow> Inr (if i < length s then JStr [s ! i] else JUndef))"
| "get_prop (JObj ps) k = Inr (case lookup ps k of None \<Rightarrow> JUndef | Some v \<Rightarrow> v)"
| "get_prop (JArr es ps) k =
     (case array_index k of
        None \<Rightarrow> Inr (case lookup ps k of None \<Rightarrow> JUndef | Some v \<Rightarrow> v)
      | Some i \<Rightarrow> Inr (if i < length es then es ! i else JUndef))"

text \<open>
  Writing \<^verbatim>\<open>x[k] = v\<close>. The sources are modules, hence strict code: a write to
  a primitive is a type error. A write past the end of an array leaves holes.
\<close>

fun set_prop :: "json \<Rightarrow> string \<Rightarrow> json \<Rightarrow> error + json" where
  "set_prop (JObj ps) k v = Inr (JObj (rec_set ps k v))"
| "set_prop (JArr es ps) k v =
     (case array_index k of
        None \<Rightarrow> Inr (JArr es (rec_set ps k v))
      | Some i \<Rightarrow>
          Inr (JArr (if i < length es then es[i := v]
                     else es @ replicate (i - length es) JUndef @ [v]) ps))"
| "set_prop x k v = Inl TypeError"

text \<open>\<^verbatim>\<open>delete x[k]\<close>, strict: the characters of a string cannot be deleted.\<close>

fun delete_prop :: "json \<Rightarrow> string \<Rightarrow> error + json" where
  "delete_prop JUndef k = Inl TypeError"
| "delete_prop JNull k = Inl TypeError"
| "delete_prop (JStr s) k =
     (case array_index k of
        None \<Rightarrow> Inr (JStr s)
      | Some i \<Rightarrow> if i < length s then Inl TypeError else Inr (JStr s))"
| "delete_prop (JObj ps) k = Inr (JObj (rec_delete ps k))"
| "delete_prop (JArr es ps) k =
     (case array_index k of
        None \<Rightarrow> Inr (JArr es (rec_delete ps k))
      | Some i \<Rightarrow> Inr (JArr (if i < length es then es[i := JUndef] else es) ps))"
| "delete_prop x k = Inr x"

text \<open>
  The resolver walks down a document with a pointer and changes the nodes it visits
  in place. In the model a node is reached by the list of property keys that lead to
  it from the root, and the changed node is put back along these keys.
\<close>

definition get :: "json \<Rightarrow> string \<Rightarrow> json" where
  "get x k = (case get_prop x k of Inl e \<Rightarrow> JUndef | Inr v \<Rightarrow> v)"

definition put :: "json \<Rightarrow> string \<Rightarrow> json \<Rightarrow> json" where
  "put x k v = (case set_prop x k v of Inl e \<Rightarrow> x | Inr x' \<Rightarrow> x')"

fun at :: "json \<Rightarrow> string list \<Rightarrow> json" where
  "at x [] = x"
| "at x (k # ks) = at (get x k) ks"

fun put_at :: "json \<Rightarrow> string list \<Rightarrow> json \<Rightarrow> json" where
  "put_at x [] v = v"
| "put_at x (k # ks) v = put x k (put_at (get x k) ks v)"

section \<open>Path Resolver\<close>

record PathComponent =
  name :: string
  isArray :: bool
  index :: "int option"
  key :: "string option"

text \<open>
  \<^verbatim>\<open>parsePathComponent\<close>: the name is the text before the first bracket; the
  text between that bracket and the next closing bracket is an index when
  \<^verbatim>\<open>parseInt\<close> reads a number from it, a key when it does not, and marks a
  push when it is empty.
\<close>

definition parsePathComponent :: "string \<Rightarrow> PathComponent" where
  "parsePathComponent component =
     (let pieces = split_on CHR ''['' component;
          ret = \<lparr> name = hd pieces, isArray = False, index = None, key = None \<rparr>
      in (case tl pieces of
            [] \<Rightarrow> ret
          | restIndex # others \<Rightarrow>
              if restIndex = [] then ret
              else (let rawIndex = hd (split_on CHR '']'' restIndex) in
                    if rawIndex \<noteq> [] then
                      (case parseInt rawIndex of
                         None \<Rightarrow> ret \<lparr> key := Some rawIndex \<rparr>
                       | Some i \<Rightarrow> ret \<lparr> isArray := True, index := Some i \<rparr>)
                    else ret \<lparr> isArray := True \<rparr>)))"

text \<open>
  The second half of one step of \<^verbatim>\<open>getDataByPath\<close>: from the target of the
  component to the node the pointer moves to. The result is the target after the
  step and the keys from the target to the new pointer. An array cannot grow beyond
  \<open>2^32 - 1\<close> elements: \<^verbatim>\<open>push\<close> throws a range error there.
\<close>

definition enter_target :: "PathComponent \<Rightarrow> json \<Rightarrow> error + (json \<times> string list)" where
  "enter_target pc target =
     (if isArray pc then
        (case index pc of
           Some i \<Rightarrow>
             ebind (get_prop target (show_int i)) (\<lambda>cur.
             ebind (set_prop target (show_int i) (if nullish cur then JObj [] else cur)) (\<lambda>target'.
             Inr (target', [show_int i])))
         | None \<Rightarrow>
             (case target of
                JArr es ps \<Rightarrow>
                  if int (length es) < 4294967295
                  then Inr (JArr (es @ [JObj []]) ps, [show_nat (length es)])
                  else Inl RangeError
              | _ \<Rightarrow> Inl TypeError))
      else
        (case key pc of
           Some k \<Rightarrow>
             if k \<noteq> [] then
               ebind (get_prop target k) (\<lambda>cur.
               if \<not> truthy cur then
                 ebind (set_prop target k (JObj [])) (\<lambda>target'. Inr (target', [k]))
               else Inr (target, [k]))
             else Inr (target, [])
         | None \<Rightarrow> Inr (target, [])))"

text \<open>
  One step of the loop of \<^verbatim>\<open>getDataByPath\<close> for a component that is neither
  empty nor \<^verbatim>\<open>.\<close>: the node under the pointer after the step, and the keys
  from it to the new pointer. A step that throws has changed nothing.
\<close>

definition resolve_component :: "string \<Rightarrow> json \<Rightarrow> string \<Rightarrow> error + (json \<times> string list)" where
  "resolve_component path ptr component =
     (let pc = parsePathComponent component in
      if name pc \<noteq> [] then
        ebind (get_prop ptr (name pc)) (\<lambda>cur.
          if \<not> truthy cur then
            ebind (set_prop ptr (name pc) (if isArray pc then JArr [] [] else JObj [])) (\<lambda>ptr'.
            ebind (enter_target pc (if isArray pc then JArr [] [] else JObj [])) (\<lambda>(target', ks).
            Inr (put ptr' (name pc) target', name pc # ks)))
          else
            ebind (enter_target pc cur) (\<lambda>(target', ks).
            Inr (put ptr (name pc) target', name pc # ks)))
      else if isArray pc then Inl (UnnamedArray component path)
      else enter_target pc ptr)"

text \<open>
  The loop over the components. An empty component ends the walk
  (\<^verbatim>\<open>break\<close>), a \<^verbatim>\<open>.\<close> is skipped. At the end the callback, if any,
  changes the resolved node in place. The result is the node the walk started from
  after all changes made in place (also when the walk throws), and either the error
  thrown or the keys leading to the resolved node together with that node.
\<close>

fun walk :: "(json \<Rightarrow> error + json) \<Rightarrow> string \<Rightarrow> json \<Rightarrow> string list
              \<Rightarrow> json \<times> (error + (string list \<times> json))" where
  "walk insertFn path ptr [] =
     (case insertFn ptr of
        Inl e \<Rightarrow> (ptr, Inl e)
      | Inr ptr' \<Rightarrow> (ptr', Inr ([], ptr')))"
| "walk insertFn path ptr (component # rest) =
     (if component = [] then walk insertFn path ptr []
      else if component = ''.'' then walk insertFn path ptr rest
      else (case resolve_component path ptr component of
              Inl e \<Rightarrow> (ptr, Inl e)
            | Inr (ptr', ks) \<Rightarrow>
                (case walk insertFn path (at ptr' ks) rest of
                   (child, Inl e) \<Rightarrow> (put_at ptr' ks child, Inl e)
                 | (child, Inr (loc, node)) \<Rightarrow> (put_at ptr' ks child, Inr (ks @ loc, node)))))"

definition getDataByPath :: "json \<Rightarrow> string \<Rightarrow> (json \<Rightarrow> error + json)
                              \<Rightarrow> json \<times> (error + (string list \<times> json))" where
  "getDataByPath data path insertFn = walk insertFn path data (split_on CHR ''/'' path)"

text \<open>The call without a callback.\<close>

definition resolve :: "json \<Rightarrow> string \<Rightarrow> json \<times> (error + (string list \<times> json))" where
  "resolve data path = getDataByPath data path Inr"

section \<open>Structural Differ\<close>

text \<open>
  \<^verbatim>\<open>jsonClone\<close> is \<^verbatim>\<open>JSON.parse(JSON.stringify(obj))\<close>: a property whose
  value is \<^verbatim>\<open>undefined\<close> is dropped, a hole of an array becomes
  \<^verbatim>\<open>null\<close>, the named properties of an array are lost, and
  \<^verbatim>\<open>undefined\<close> itself cannot be cloned (the parser throws).
\<close>

fun clone :: "json \<Rightarrow> json" where
  "clone (JObj ps) = JObj (filter (\<lambda>p. snd p \<noteq> JUndef) (map (\<lambda>p. (fst p, clone (snd p))) ps))"
| "clone (JArr es ps) = JArr (map (\<lambda>v. if v = JUndef then JNull else clone v) es) []"
| "clone v = v"

definition jsonClone :: "json \<Rightarrow> error + json" where
  "jsonClone obj = (if obj = JUndef then Inl SyntaxError else Inr (clone obj))"

text \<open>\<^verbatim>\<open>Object.keys\<close> of a value that is neither \<^verbatim>\<open>null\<close> nor \<^verbatim>\<open>undefined\<close>.\<close>

fun keys_of :: "json \<Rightarrow> string list" where
  "keys_of (JObj ps) = map fst ps"
| "keys_of (JArr es ps) =
     map show_nat (filter (\<lambda>i. es ! i \<noteq> JUndef) [0 ..< length es]) @ map fst ps"
| "keys_of (JStr s) = map show_nat [0 ..< length s]"
| "keys_of v = []"

fun elems :: "json \<Rightarrow> json list" where
  "elems (JArr es ps) = es"
| "elems v = []"

text \<open>\<^verbatim>\<open>arr[i]\<close> for a number \<open>i\<close>: \<^verbatim>\<open>undefined\<close> past the end.\<close>

definition nth_undef :: "json list \<Rightarrow> nat \<Rightarrow> json" where
  "nth_undef es i = (if i < length es then es ! i else JUndef)"

record DiffResults =
  hasDiff :: bool
  diffs :: "(string \<times> (json \<times> json)) list"

definition no_diff :: DiffResults where
  "no_diff = \<lparr> hasDiff = False, diffs = [] \<rparr>"

definition mergeArrays :: "string list \<Rightarrow> string list \<Rightarrow> string list" where
  "mergeArrays arr1 arr2 =
     map fst (fold (\<lambda>ele examined. rec_set examined ele True) arr2
               (fold (\<lambda>ele examined. rec_set examined ele True) arr1 []))"

lemma lookup_size:
  "lookup ps k = Some v \<Longrightarrow> size v < size_list (size_prod (\<lambda>_. 0) size) ps"
  by (induction ps) (auto split: if_splits)

lemma nth_size: "i < length es \<Longrightarrow> size (es ! i) < size_list size es"
proof (induction es arbitrary: i)
  case Nil
  then show ?case by simp
next
  case (Cons a es)
  show ?case
  proof (cases i)
    case 0
    then show ?thesis by simp
  next
    case (Suc j)
    with Cons.prems have "j < length es" by simp
    from Cons.IH [OF this] Suc show ?thesis by simp
  qed
qed

lemma get_size: "typeof_object (get x k) \<Longrightarrow> size (get x k) < size x"
  by (cases x)
     (auto simp: get_def dest: lookup_size split: option.splits if_splits
           intro: less_SucI trans_less_add1 trans_less_add2 nth_size)

lemma elems_size: "is_array (get x k) \<Longrightarrow> size_list size (elems (get x k)) < size x"
proof -
  assume a: "is_array (get x k)"
  then have "typeof_object (get x k)" by (cases "get x k") simp_all
  then have "size (get x k) < size x" by (rule get_size)
  moreover from a have "size_list size (elems (get x k)) < size (get x k)"
    by (cases "get x k") simp_all
  ultimately show ?thesis by simp
qed

lemma nth_undef_size: "truthy (nth_undef es i) \<Longrightarrow> size (nth_undef es i) < size_list size es"
  by (auto simp: nth_undef_def nth_size split: if_splits)

text \<open>
  \<^verbatim>\<open>computeDiff(oval, nval, curpath, diff)\<close> and \<^verbatim>\<open>computeArrayDiff\<close>. The
  result object \<^verbatim>\<open>curdiff\<close>, which the source fills in place, is threaded
  through the loop over the merged keys. Every value the program passes is a document
  or a node of one, never \<^verbatim>\<open>undefined\<close> (for which \<^verbatim>\<open>Object.keys\<close>
  would throw). Where the last case compares with \<^verbatim>\<open>!==\<close>, at most one of the
  two values is an object, so the comparison is that of the values.
\<close>

function computeDiff :: "json \<Rightarrow> json \<Rightarrow> string \<Rightarrow> DiffResults \<Rightarrow> DiffResults"
  and computeArrayDiff :: "json list \<Rightarrow> json list \<Rightarrow> DiffResults" where
  "computeDiff oval nval curpath curdiff =
     (if oval = JNull \<and> nval = JNull then curdiff
      else if oval = JNull \<or> nval = JNull then
        curdiff \<lparr> diffs := rec_set (diffs curdiff) curpath (oval, nval) \<rparr>
      else
        fold (\<lambda>okey cd.
                if is_array (get oval okey) \<and> is_array (get nval okey) then
                  (if hasDiff (computeArrayDiff (elems (get oval okey)) (elems (get nval okey))) then
                     fold (\<lambda>ix cd'. cd' \<lparr> diffs := rec_set (diffs cd')
                                 ((if curpath \<noteq> [] then curpath @ ''/'' else []) @ okey @ fst ix)
                                 (snd ix) \<rparr>)
                       (diffs (computeArrayDiff (elems (get oval okey)) (elems (get nval okey))))
                       (cd \<lparr> hasDiff := True \<rparr>)
                   else cd)
                else if typeof_object (get oval okey) \<and> typeof_object (get nval okey) then
                  computeDiff (get oval okey) (get nval okey)
                    ((if curpath \<noteq> [] then curpath @ ''/'' else []) @ okey) cd
                else if get oval okey \<noteq> get nval okey then
                  cd \<lparr> hasDiff := True,
                       diffs := rec_set (diffs cd)
                         ((if curpath \<noteq> [] then curpath @ ''/'' else []) @ okey)
                         (get oval okey, get nval okey) \<rparr>
                else cd)
          (mergeArrays (keys_of oval) (keys_of nval)) curdiff)"
| "computeArrayDiff oval nval =
     (case fold (\<lambda>i (mydiff, errs).
                   if truthy (nth_undef oval i) \<and> typeof_object (nth_undef oval i)
                      \<and> truthy (nth_undef nval i) \<and> typeof_object (nth_undef nval i) then
                     (if hasDiff (computeDiff (nth_undef oval i) (nth_undef nval i) []
                                    \<lparr> hasDiff = False, diffs = [] \<rparr>) then
                        (mydiff \<lparr> diffs := rec_set (diffs mydiff) (''['' @ show_nat i @ '']'')
                                    (nth_undef oval i, nth_undef nval i) \<rparr>, errs + 1)
                      else (mydiff, errs))
                   else if nth_undef oval i \<noteq> nth_undef nval i then
                     (mydiff \<lparr> diffs := rec_set (diffs mydiff) (''['' @ show_nat i @ '']'')
                                 (nth_undef oval i, nth_undef nval i) \<rparr>, errs + 1)
                   else (mydiff, errs))
             [0 ..< (if length oval > length nval then length oval else length nval)]
             (\<lparr> hasDiff = False, diffs = [] \<rparr>, 0 :: nat) of
        (mydiff, errs) \<Rightarrow> mydiff \<lparr> hasDiff := (errs \<noteq> 0) \<rparr>)"
  by pat_completeness auto
termination
proof (relation "measure (\<lambda>x. case x of
                            Inl (oval, nval, p, d) \<Rightarrow> size oval + size nval
                          | Inr (es, es') \<Rightarrow> size_list size es + size_list size es')",
       goal_cases)
  case 1
  show ?case by simp
next
  case (2 oval nval curpath curdiff okey cd)
  then show ?case using elems_size [of oval okey] elems_size [of nval okey] by simp
next
  case (3 oval nval curpath curdiff okey cd)
  then show ?case using elems_size [of oval okey] elems_size [of nval okey] by simp
next
  case (4 oval nval curpath curdiff okey cd)
  then show ?case using get_size [of oval okey] get_size [of nval okey] by simp
next
  case (5 oval nval i x)
  then show ?case using nth_undef_size [of oval i] nth_undef_size [of nval i] by simp
qed

declare computeDiff.simps [simp del] computeArrayDiff.simps [simp del]

section \<open>Scope Collector\<close>

text \<open>
  \<^verbatim>\<open>joinScopes\<close> joins the parts that are given, non-empty and not \<^verbatim>\<open>.\<close>;
  a part that is not given is \<open>None\<close>.
\<close>

definition joinScopes :: "string option list \<Rightarrow> string" where
  "joinScopes partial =
     join ''/'' (map the (filter (\<lambda>s. s \<noteq> None \<and> the s \<noteq> [] \<and> the s \<noteq> ''.'') partial))"

text \<open>
  The regular expression \<^verbatim>\<open>/\[.*\]$/\<close>: a match starts at the leftmost opening
  bracket from which no line terminator stands before the closing bracket that ends
  the text. The result is the text before the match, which is what
  \<^verbatim>\<open>s.replace(/\[.*\]$/, '')\<close> leaves; \<open>None\<close> when nothing matches.
\<close>

definition line_terminator :: "char \<Rightarrow> bool" where
  "line_terminator c = (of_char c \<in> {10, 13 :: nat})"

fun bracket_suffix :: "string \<Rightarrow> string option" where
  "bracket_suffix [] = None"
| "bracket_suffix (c # cs) =
     (if c = CHR ''['' \<and> cs \<noteq> [] \<and> last cs = CHR '']''
         \<and> list_all (\<lambda>d. \<not> line_terminator d) (butlast cs)
      then Some []
      else map_option ((#) c) (bracket_suffix cs))"

text \<open>
  The collector holds \<^verbatim>\<open>qScopes\<close>. The loop of \<^verbatim>\<open>addScope\<close> runs on the
  remaining parts, the path found so far and the name.
\<close>

function addScope_loop :: "string list \<Rightarrow> string \<Rightarrow> string option \<Rightarrow> (string \<times> bool) list
                            \<Rightarrow> (string \<times> bool) list \<times> string" where
  "addScope_loop parts path nm qScopes =
     (if parts = [] then (qScopes, path)
      else if path = [] then
        addScope_loop (butlast parts) (join ''/'' parts) nm
          (if nm \<noteq> None \<and> the nm \<noteq> []
           then rec_set (rec_set qScopes (join ''/'' parts) True)
                  (join ''/'' (butlast parts) @ ''/*'') True
           else rec_set qScopes (join ''/'' parts) True)
      else
        addScope_loop (butlast parts) path nm
          (case bracket_suffix (join ''/'' parts) of
             None \<Rightarrow> rec_set qScopes (join ''/'' parts) True
           | Some arr \<Rightarrow> rec_set (rec_set qScopes (join ''/'' parts) True) (arr @ ''/*'') True))"
  by pat_completeness auto
termination
  by (relation "measure (\<lambda>(parts, path, nm, qScopes). length parts)") auto

declare addScope_loop.simps [simp del]

definition addScope :: "(string \<times> bool) list \<Rightarrow> string \<Rightarrow> string option
                         \<Rightarrow> (string \<times> bool) list \<times> string" where
  "addScope qScopes scope nm =
     addScope_loop
       (filter (\<lambda>s. s \<noteq> [] \<and> s \<noteq> ''.'') (split_on CHR ''/'' (joinScopes [Some scope, nm])))
       [] nm qScopes"

text \<open>\<^verbatim>\<open>sortString\<close> on two strings: the comparison of the language is lexicographic.\<close>

definition sortString :: "string \<Rightarrow> string \<Rightarrow> int" where
  "sortString a b = (if a = b then 0 else if a < b then - 1 else if a > b then 1 else 0)"

definition compareScopes :: "string \<Rightarrow> string \<Rightarrow> int" where
  "compareScopes a b =
     (if length a < length b then 1
      else if length a > length b then - 1
      else sortString a b)"

text \<open>
  \<^verbatim>\<open>Array.prototype.sort\<close> with a comparison function, as a stable insertion
  sort: an element goes before the first one it compares smaller than.
\<close>

fun insert_by :: "('a \<Rightarrow> 'a \<Rightarrow> int) \<Rightarrow> 'a \<Rightarrow> 'a list \<Rightarrow> 'a list" where
  "insert_by cmp x [] = [x]"
| "insert_by cmp x (y # ys) = (if cmp x y \<le> 0 then x # y # ys else y # insert_by cmp x ys)"

definition sort_by :: "('a \<Rightarrow> 'a \<Rightarrow> int) \<Rightarrow> 'a list \<Rightarrow> 'a list" where
  "sort_by cmp xs = foldr (insert_by cmp) xs []"

definition getScopes :: "(string \<times> bool) list \<Rightarrow> string list" where
  "getScopes qScopes = sort_by compareScopes (map fst qScopes)"

section \<open>Event Bus\<close>

text \<open>
  Handlers are the callbacks of the callers; the model knows them by name and records
  each call made to one, with the event name and the arguments it receives. A handler
  is taken not to call back into the object that emits; in the sources a handler runs
  inside the call that emits and may do so, hence a statement below about what a call
  leaves unchanged is made for a bus without handlers. \<open>emitted\<close> lists the calls
  of \<^verbatim>\<open>emit\<close>, \<open>called\<close> the calls of handlers, both in order.
\<close>

record 'p EventBus =
  handlerMap :: "(string \<times> string list) list"
  emitted :: "(string \<times> 'p) list"
  called :: "(string \<times> string \<times> 'p) list"

definition makeEventBus :: "'p EventBus" where
  "makeEventBus = \<lparr> handlerMap = [], emitted = [], called = [] \<rparr>"

definition handlers :: "'p EventBus \<Rightarrow> string \<Rightarrow> string list" where
  "handlers bus nm = (case lookup (handlerMap bus) nm of None \<Rightarrow> [] | Some fs \<Rightarrow> fs)"

definition addListener :: "string \<Rightarrow> string \<Rightarrow> 'p EventBus \<Rightarrow> 'p EventBus" where
  "addListener nm listener bus =
     bus \<lparr> handlerMap := rec_set (handlerMap bus) nm (handlers bus nm @ [listener]) \<rparr>"

text \<open>The function \<^verbatim>\<open>addListener\<close> returns: it removes the listener from the topic.\<close>

definition removeListener :: "string \<Rightarrow> string \<Rightarrow> 'p EventBus \<Rightarrow> 'p EventBus" where
  "removeListener nm listener bus =
     bus \<lparr> handlerMap := rec_set (handlerMap bus) nm
                            (filter (\<lambda>fn. fn \<noteq> listener) (handlers bus nm)) \<rparr>"

text \<open>
  \<^verbatim>\<open>emit(name, ...args)\<close> calls the handlers of the topic and then those of the
  topic \<^verbatim>\<open>*\<close>, each with the name and the arguments.
\<close>

definition emit :: "string \<Rightarrow> 'p \<Rightarrow> 'p EventBus \<Rightarrow> 'p EventBus" where
  "emit nm args bus =
     bus \<lparr> emitted := emitted bus @ [(nm, args)],
           called := called bus @ map (\<lambda>fn. (fn, nm, args)) (handlers bus nm)
                                @ map (\<lambda>fn. (fn, nm, args)) (handlers bus ''*'') \<rparr>"

section \<open>Document Context\<close>

text \<open>
  The arguments a handler of the context receives after the event name.
\<close>

datatype payload =
    FieldUpdated string string string "json \<times> json"
  | ScopeUpdated string DiffResults
  | AllUpdated DiffResults json
  | SetInitial DiffResults string
  | WasReset json

text \<open>
  \<^verbatim>\<open>makeFHContext\<close> keeps the constant \<^verbatim>\<open>data\<close>, the constant
  \<^verbatim>\<open>initialData\<close> and the object \<^verbatim>\<open>ref\<close>, whose fields \<^verbatim>\<open>data\<close>
  and \<^verbatim>\<open>initialData\<close> start as the same two objects. Which object a name refers
  to matters, so the documents live in a heap and the names hold addresses:
  \<^verbatim>\<open>ref.data === data\<close> is \<open>ref_data c = data c\<close>. The blur bus and the
  submit functions are not part of the model.
\<close>

record FHContext =
  heap :: "nat \<Rightarrow> json"
  data :: nat
  initialData :: nat
  ref_data :: nat
  ref_initialData :: nat
  ref_changelog :: "DiffResults list"
  events :: "payload EventBus"
  scopedUpdateBus :: "payload EventBus"

text \<open>An address no name of the context holds: where a newly made object goes.\<close>

definition fresh :: "FHContext \<Rightarrow> nat" where
  "fresh c = Suc (max (max (data c) (initialData c)) (max (ref_data c) (ref_initialData c)))"

text \<open>
  The arguments are \<^verbatim>\<open>p.data\<close> and \<^verbatim>\<open>p.initialData\<close>, \<open>None\<close> when not
  given. \<^verbatim>\<open>jsonClone\<close> cannot throw here: with \<^verbatim>\<open>??\<close> its argument is
  never \<^verbatim>\<open>undefined\<close>.
\<close>

definition makeFHContext :: "json option \<Rightarrow> json option \<Rightarrow> FHContext" where
  "makeFHContext pdata pinitial =
     (let d = clone (case pdata of None \<Rightarrow> JObj [] | Some v \<Rightarrow> if nullish v then JObj [] else v);
          i = clone (case pinitial of None \<Rightarrow> d | Some v \<Rightarrow> if nullish v then d else v)
      in \<lparr> heap = (\<lambda>a. if a = 0 then d else if a = 1 then i else JUndef),
           data = 0, initialData = 1, ref_data = 0, ref_initialData = 1,
           ref_changelog = [],
           events = makeEventBus, scopedUpdateBus = makeEventBus \<rparr>)"

definition write_heap :: "nat \<Rightarrow> json \<Rightarrow> FHContext \<Rightarrow> FHContext" where
  "write_heap a v c = c \<lparr> heap := (heap c)(a := v) \<rparr>"

text \<open>
  The loop of \<^verbatim>\<open>triggerUpdate\<close> over the entries of the diff: it emits on the
  exact topic and feeds the scope collector.
\<close>

definition emit_entry :: "string \<times> (json \<times> json)
    \<Rightarrow> payload EventBus \<times> (string \<times> bool) list \<Rightarrow> payload EventBus \<times> (string \<times> bool) list" where
  "emit_entry entry acc =
     (let path = fst entry;
          parts = split_on CHR ''/'' path;
          nm = last parts;
          scope = join ''/'' (butlast parts);
          bus = emit path (FieldUpdated path scope nm (snd entry)) (fst acc)
      in if scope \<noteq> [] \<and> scope \<noteq> ''.'' then (bus, fst (addScope (snd acc) scope None))
         else (bus, snd acc))"

text \<open>
  An operation of the context returns the error it throws, if any, and the context
  as the call leaves it.
\<close>

definition triggerUpdate :: "DiffResults \<Rightarrow> FHContext \<Rightarrow> error option \<times> FHContext" where
  "triggerUpdate diff c =
     (if \<not> hasDiff diff then (None, c)
      else (case jsonClone (heap c (ref_data c)) of
              Inl e \<Rightarrow> (Some e, c)
            | Inr cl \<Rightarrow>
                (let acc = fold emit_entry (diffs diff) (scopedUpdateBus c, []);
                     bus = fold (\<lambda>scope. emit scope (ScopeUpdated scope diff))
                             (getScopes (snd acc)) (fst acc)
                 in (None, c \<lparr> ref_changelog := ref_changelog c @ [diff],
                               scopedUpdateBus := emit ''*'' (AllUpdated diff cl) bus \<rparr>))))"

definition bindToUpdatedScope :: "string \<Rightarrow> string \<Rightarrow> string option \<Rightarrow> FHContext \<Rightarrow> FHContext" where
  "bindToUpdatedScope handler scope nm c =
     (if scope \<noteq> [] \<and> scope \<noteq> ''.'' then
        (if nm \<noteq> None \<and> the nm \<noteq> []
         then c \<lparr> scopedUpdateBus := addListener (scope @ ''/'' @ the nm) handler (scopedUpdateBus c) \<rparr>
         else c \<lparr> scopedUpdateBus := addListener scope handler (scopedUpdateBus c) \<rparr>)
      else c)"

text \<open>
  \<^verbatim>\<open>setControlValue\<close> (the function \<^verbatim>\<open>update\<close> of the source) works on
  \<^verbatim>\<open>ref.data\<close>.
\<close>

definition setControlValue :: "string \<Rightarrow> json \<Rightarrow> string \<Rightarrow> FHContext \<Rightarrow> error option \<times> FHContext" where
  "setControlValue nm val scope c =
     (case jsonClone (heap c (ref_data c)) of
        Inl e \<Rightarrow> (Some e, c)
      | Inr odata \<Rightarrow>
          (case getDataByPath (heap c (ref_data c)) scope (\<lambda>ptr. set_prop ptr nm val) of
             (root, Inl e) \<Rightarrow> (Some e, write_heap (ref_data c) root c)
           | (root, Inr r) \<Rightarrow>
               triggerUpdate (computeDiff odata root scope no_diff)
                 (write_heap (ref_data c) root c)))"

text \<open>
  \<^verbatim>\<open>v !== value\<close> between an element of the document and the value the caller
  passes: two objects are never the same object.
\<close>

definition strict_eq :: "json \<Rightarrow> json \<Rightarrow> bool" where
  "strict_eq a b = (a = b \<and> \<not> is_array a \<and> (case a of JObj ps \<Rightarrow> False | _ \<Rightarrow> True))"

text \<open>The callback of \<^verbatim>\<open>updateControlValue\<close> for a value that is not \<^verbatim>\<open>undefined\<close>.\<close>

definition control_insert :: "string \<Rightarrow> json \<Rightarrow> bool \<Rightarrow> bool \<Rightarrow> json \<Rightarrow> error + json" where
  "control_insert nm val isArr isArrRemove ptr =
     (if isArr then
        ebind (get_prop ptr nm) (\<lambda>cur.
        ebind (if \<not> truthy cur then set_prop ptr nm (JArr [] []) else Inr ptr) (\<lambda>ptr1.
        ebind (get_prop ptr1 nm) (\<lambda>arr.
          (case arr of
             JArr es ps \<Rightarrow>
               if isArrRemove
               then set_prop ptr1 nm (JArr (filter (\<lambda>v. v \<noteq> JUndef \<and> \<not> strict_eq v val) es) [])
               else if int (length es) < 4294967295 then set_prop ptr1 nm (JArr (es @ [val]) ps)
               else Inl RangeError
           | _ \<Rightarrow> Inl TypeError))))
      else set_prop ptr nm val)"

text \<open>
  \<^verbatim>\<open>updateControlValue\<close> works on the constant \<^verbatim>\<open>data\<close>, not on
  \<^verbatim>\<open>ref.data\<close>; a value that is not given is \<open>JUndef\<close>.
\<close>

definition updateControlValue :: "string \<Rightarrow> string \<Rightarrow> json \<Rightarrow> bool \<Rightarrow> bool \<Rightarrow> FHContext
                                   \<Rightarrow> error option \<times> FHContext" where
  "updateControlValue scope nm val isArr isArrRemove c =
     (case jsonClone (heap c (data c)) of
        Inl e \<Rightarrow> (Some e, c)
      | Inr odata \<Rightarrow>
          if val = JUndef then
            (case getDataByPath (heap c (data c)) scope (\<lambda>ptr. delete_prop ptr nm) of
               (root, Inl e) \<Rightarrow> (Some e, write_heap (data c) root c)
             | (root, Inr r) \<Rightarrow>
                 triggerUpdate (computeDiff odata root scope no_diff) (write_heap (data c) root c))
          else
            (case getDataByPath (heap c (data c)) scope (control_insert nm val isArr isArrRemove) of
               (root, Inl e) \<Rightarrow> (Some e, write_heap (data c) root c)
             | (root, Inr r) \<Rightarrow>
                 triggerUpdate (computeDiff odata root [] no_diff) (write_heap (data c) root c)))"

text \<open>The object spread \<^verbatim>\<open>{...v}\<close>: the own properties of the value.\<close>

fun spread :: "json \<Rightarrow> (string \<times> json) list" where
  "spread (JObj ps) = ps"
| "spread (JArr es ps) =
     map (\<lambda>i. (show_nat i, es ! i)) (filter (\<lambda>i. es ! i \<noteq> JUndef) [0 ..< length es]) @ ps"
| "spread (JStr s) = map (\<lambda>i. (show_nat i, JStr [s ! i])) [0 ..< length s]"
| "spread v = []"

definition getData :: "FHContext \<Rightarrow> json" where
  "getData c = JObj (spread (heap c (ref_data c)))"

definition getInitial :: "FHContext \<Rightarrow> json" where
  "getInitial c = JObj (spread (heap c (ref_initialData c)))"

text \<open>
  \<^verbatim>\<open>Object.assign(target, source)\<close>: a write to a primitive target goes to a
  wrapper and is lost, except on the characters of a string.
\<close>

definition assign_prop :: "json \<Rightarrow> string \<times> json \<Rightarrow> error + json" where
  "assign_prop target kv =
     (case target of
        JObj ps \<Rightarrow> set_prop target (fst kv) (snd kv)
      | JArr es ps \<Rightarrow> set_prop target (fst kv) (snd kv)
      | JStr s \<Rightarrow>
          (case array_index (fst kv) of
             None \<Rightarrow> Inr target
           | Some i \<Rightarrow> if i < length s then Inl TypeError else Inr target)
      | _ \<Rightarrow> Inr target)"

definition object_assign :: "json \<Rightarrow> json \<Rightarrow> error + json" where
  "object_assign target source =
     (if nullish target then Inl TypeError
      else fold (\<lambda>kv acc. ebind acc (\<lambda>t. assign_prop t kv)) (spread source) (Inr target))"

definition setData :: "json \<Rightarrow> string \<Rightarrow> FHContext \<Rightarrow> error option \<times> FHContext" where
  "setData newData scope c =
     (case resolve (heap c (ref_data c)) scope of
        (root, Inl e) \<Rightarrow> (Some e, write_heap (ref_data c) root c)
      | (root, Inr (loc, ptr)) \<Rightarrow>
          (case jsonClone ptr of
             Inl e \<Rightarrow> (Some e, write_heap (ref_data c) root c)
           | Inr optr \<Rightarrow>
               (case object_assign ptr newData of
                  Inl e \<Rightarrow> (Some e, write_heap (ref_data c) root c)
                | Inr ptr' \<Rightarrow>
                    triggerUpdate (computeDiff optr ptr' scope no_diff)
                      (write_heap (ref_data c) (put_at root loc ptr') c))))"

text \<open>\<^verbatim>\<open>setInitial\<close> has the parameter \<^verbatim>\<open>newData\<close>; its body does not use it.\<close>

definition setInitial :: "json \<Rightarrow> string \<Rightarrow> FHContext \<Rightarrow> error option \<times> FHContext" where
  "setInitial newData scope c =
     (case resolve (heap c (ref_initialData c)) scope of
        (root, Inl e) \<Rightarrow> (Some e, write_heap (ref_initialData c) root c)
      | (root, Inr (loc, ptr)) \<Rightarrow>
          (case jsonClone ptr of
             Inl e \<Rightarrow> (Some e, write_heap (ref_initialData c) root c)
           | Inr optr \<Rightarrow>
               (None, (write_heap (ref_initialData c) root c)
                        \<lparr> events := emit ''set-initial''
                                      (SetInitial (computeDiff optr ptr scope no_diff) scope)
                                      (events c) \<rparr>)))"

text \<open>\<^verbatim>\<open>reset\<close> makes \<^verbatim>\<open>ref.data\<close> a new object; the constant \<^verbatim>\<open>data\<close> stays.\<close>

definition reset :: "FHContext \<Rightarrow> error option \<times> FHContext" where
  "reset c =
     (case jsonClone (heap c (ref_initialData c)) of
        Inl e \<Rightarrow> (Some e, c)
      | Inr d \<Rightarrow>
          (case jsonClone d of
             Inl e \<Rightarrow> (Some e, (write_heap (fresh c) d c) \<lparr> ref_data := fresh c \<rparr>)
           | Inr d' \<Rightarrow>
               (None, (write_heap (fresh c) d c)
                        \<lparr> ref_data := fresh c,
                          events := emit ''reset'' (WasReset d') (events c) \<rparr>)))"

text \<open>
  \<^verbatim>\<open>resetControl\<close> resolves the scope in \<^verbatim>\<open>ref.data\<close> and in
  \<^verbatim>\<open>ref.initialData\<close>, writes the initial value of the control into
  \<^verbatim>\<open>ref.data\<close>, and takes the constant \<^verbatim>\<open>data\<close> as the new side of the diff.
  The source stores the very value found in the snapshot: when it is an object or an
  array, live document and snapshot share it from then on. The model stores its value;
  it follows the source as long as no such shared node is changed afterwards.
\<close>

definition resetControl :: "string \<Rightarrow> string \<Rightarrow> FHContext \<Rightarrow> error option \<times> FHContext" where
  "resetControl nm scope c =
     (case resolve (heap c (ref_data c)) scope of
        (root, Inl e) \<Rightarrow> (Some e, write_heap (ref_data c) root c)
      | (root, Inr (loc, ptr)) \<Rightarrow>
          (let c1 = write_heap (ref_data c) root c in
           case jsonClone (heap c1 (ref_data c1)) of
             Inl e \<Rightarrow> (Some e, c1)
           | Inr odata \<Rightarrow>
               (case resolve (heap c1 (ref_initialData c1)) scope of
                  (iroot, Inl e) \<Rightarrow> (Some e, write_heap (ref_initialData c1) iroot c1)
                | (iroot, Inr (iloc, inode)) \<Rightarrow>
                    (let c2 = write_heap (ref_initialData c1) iroot c1 in
                     case get_prop inode nm of
                       Inl e \<Rightarrow> (Some e, c2)
                     | Inr v \<Rightarrow>
                         (case set_prop (at (heap c2 (ref_data c2)) loc) nm v of
                            Inl e \<Rightarrow> (Some e, c2)
                          | Inr ptr' \<Rightarrow>
                              (let c3 = write_heap (ref_data c2)
                                          (put_at (heap c2 (ref_data c2)) loc ptr') c2
                               in triggerUpdate
                                    (computeDiff odata (heap c3 (data c3)) [] no_diff) c3))))))"

section \<open>Action Store\<close>

text \<open>
  The state of a store is an object: its own properties and the two transient fields
  \<^verbatim>\<open>__innerEvents\<close> and \<^verbatim>\<open>__changedKeys\<close>, which the type
  \<^verbatim>\<open>StateTransientProps\<close> declares as optional lists of strings (\<open>None\<close>:
  absent). A path does not address the transient fields.
\<close>

record tstate =
  props :: "(string \<times> json) list"
  innerEvents :: "string list option"
  changedKeys :: "string list option"

text \<open>
  An action: its type and the fields of \<^verbatim>\<open>StandardOpsActionMeta\<close>. The function
  \<^verbatim>\<open>customOp\<close> receives the action it is a field of as its first argument; in the
  model it is a function of the subgraph alone.
\<close>

record action =
  atype :: string
  apath :: "string option"
  customOp :: "(json \<Rightarrow> json) option"
  remove_op :: "string list option"
  append_op :: "(string \<times> json) list option"
  set_op :: "(string \<times> json) list option"
  increment_op :: "(string \<times> int) list option"

text \<open>
  What a reducer returns: \<^verbatim>\<open>undefined\<close> (or another value that is not truthy,
  which \<^verbatim>\<open>applyReducers\<close> treats alike), the very object it received, or another
  object. A reducer may also change the object it received in place, and it may throw:
  its result in the model is the content of the received object after the call, and
  the error thrown or the value returned.
\<close>

datatype returned = Undefined | Input | Object tstate

type_synonym reducer = "action \<Rightarrow> tstate \<Rightarrow> tstate \<times> (error + returned)"

text \<open>
  \<^verbatim>\<open>applyReducers(action, ostate)\<close>. \<open>orig\<close> is the content of the object
  \<^verbatim>\<open>ostate\<close>; \<open>nstate\<close> is \<open>None\<close> while the variable \<^verbatim>\<open>nstate\<close> still
  refers to that object, and \<open>Some t\<close> once it refers to another object, of content
  \<open>t\<close>. The result has the same form.
\<close>

fun applyReducers_loop :: "action \<Rightarrow> tstate \<Rightarrow> tstate option \<Rightarrow> reducer list
                            \<Rightarrow> tstate \<times> (error + tstate option)" where
  "applyReducers_loop act orig nstate [] = (orig, Inr nstate)"
| "applyReducers_loop act orig None (r # rs) =
     (case r act orig of
        (orig', Inl e) \<Rightarrow> (orig', Inl e)
      | (orig', Inr Undefined) \<Rightarrow> applyReducers_loop act orig' None rs
      | (orig', Inr Input) \<Rightarrow> applyReducers_loop act orig' None rs
      | (orig', Inr (Object ts)) \<Rightarrow> applyReducers_loop act orig' (Some ts) rs)"
| "applyReducers_loop act orig (Some t) (r # rs) =
     (case r act t of
        (t', Inl e) \<Rightarrow> (orig, Inl e)
      | (t', Inr Undefined) \<Rightarrow> applyReducers_loop act orig (Some t') rs
      | (t', Inr Input) \<Rightarrow> applyReducers_loop act orig (Some t') rs
      | (t', Inr (Object ts)) \<Rightarrow> applyReducers_loop act orig (Some ts) rs)"

definition applyReducers :: "reducer list \<Rightarrow> action \<Rightarrow> tstate \<Rightarrow> tstate \<times> (error + tstate option)" where
  "applyReducers rs act ostate = applyReducers_loop act ostate None rs"


text \<open>What a handler of the store receives after the event name.\<close>

datatype spayload =
    ActionEvent action tstate "string list \<times> string list"
  | StateReset tstate

text \<open>
  \<open>state_ref\<close> names the object \<^verbatim>\<open>this.state\<close> refers to: it changes exactly when
  \<^verbatim>\<open>this.state\<close> is assigned another object.
\<close>

record ActionStoreImpl =
  state :: tstate
  state_ref :: nat
  reducers :: "reducer list"
  store_events :: "spayload EventBus"

definition clone_state :: "tstate \<Rightarrow> tstate" where
  "clone_state st = st \<lparr> props := spread (clone (JObj (props st))) \<rparr>"

definition makeActionStore :: "tstate \<Rightarrow> reducer list \<Rightarrow> ActionStoreImpl" where
  "makeActionStore st rs =
     \<lparr> state = clone_state st, state_ref = 0, reducers = rs, store_events = makeEventBus \<rparr>"

definition state_reset :: action where
  "state_reset = \<lparr> atype = ''state-reset'', apath = None, customOp = None, remove_op = None,
                   append_op = None, set_op = None, increment_op = None \<rparr>"

text \<open>\<^verbatim>\<open>resetState(state)\<close>: the parameter is \<open>s\<close>.\<close>

definition resetState :: "tstate \<Rightarrow> ActionStoreImpl \<Rightarrow> error option \<times> ActionStoreImpl" where
  "resetState s st =
     (case applyReducers (reducers st) state_reset (state st) of
        (orig, Inl e) \<Rightarrow> (Some e, st \<lparr> state := orig \<rparr>)
      | (orig, Inr None) \<Rightarrow>
          (None, st \<lparr> state := orig,
                      store_events := emit ''state-reset'' (StateReset orig) (store_events st) \<rparr>)
      | (orig, Inr (Some t)) \<Rightarrow>
          (None, st \<lparr> state := t, state_ref := Suc (state_ref st),
                      store_events := emit ''state-reset'' (StateReset t) (store_events st) \<rparr>))"

text \<open>\<^verbatim>\<open>updateState(p)\<close> passes a new object, \<^verbatim>\<open>{...this.state, ...p}\<close>.\<close>

definition updateState :: "(string \<times> json) list \<Rightarrow> ActionStoreImpl \<Rightarrow> error option \<times> ActionStoreImpl" where
  "updateState p st =
     (case applyReducers (reducers st) state_reset
             ((state st) \<lparr> props := fold (\<lambda>kv ps. rec_set ps (fst kv) (snd kv)) p (props (state st)) \<rparr>) of
        (orig, Inl e) \<Rightarrow> (Some e, st)
      | (orig, Inr None) \<Rightarrow>
          (None, st \<lparr> state := orig, state_ref := Suc (state_ref st),
                      store_events := emit ''state-reset'' (StateReset orig) (store_events st) \<rparr>)
      | (orig, Inr (Some t)) \<Rightarrow>
          (None, st \<lparr> state := t, state_ref := Suc (state_ref st),
                      store_events := emit ''state-reset'' (StateReset t) (store_events st) \<rparr>))"

definition getState :: "ActionStoreImpl \<Rightarrow> tstate" where
  "getState st = state st"

definition prependReducer :: "reducer \<Rightarrow> ActionStoreImpl \<Rightarrow> ActionStoreImpl" where
  "prependReducer r st = st \<lparr> reducers := r # reducers st \<rparr>"

definition appendReducer :: "reducer \<Rightarrow> ActionStoreImpl \<Rightarrow> ActionStoreImpl" where
  "appendReducer r st = st \<lparr> reducers := reducers st @ [r] \<rparr>"

text \<open>The topics of \<^verbatim>\<open>cascadeEmit\<close>: the event, then each shorter prefix of its levels.\<close>

function cascade_topics :: "string list \<Rightarrow> string list" where
  "cascade_topics levels =
     (if levels = [] then [] else join '':'' levels # cascade_topics (butlast levels))"
  by pat_completeness auto
termination
  by (relation "measure length") auto

declare cascade_topics.simps [simp del]

definition cascadeEmit :: "string \<Rightarrow> action \<Rightarrow> tstate \<Rightarrow> string list \<times> string list
                            \<Rightarrow> spayload EventBus \<Rightarrow> spayload EventBus" where
  "cascadeEmit event act st meta bus =
     fold (\<lambda>evt. emit evt (ActionEvent act st meta)) (cascade_topics (split_on CHR '':'' event)) bus"

text \<open>The inner events that are sent: each once, at its first place.\<close>

definition first_seen :: "string list \<Rightarrow> string list" where
  "first_seen xs = fold (\<lambda>x sent. if x \<in> set sent then sent else sent @ [x]) xs []"

text \<open>
  \<^verbatim>\<open>dispatch\<close>: the reducers run on a clone; only when they end on another object
  than the clone are events emitted and \<^verbatim>\<open>this.state\<close> assigned.
\<close>

definition dispatch :: "action \<Rightarrow> ActionStoreImpl \<Rightarrow> error option \<times> ActionStoreImpl" where
  "dispatch act st =
     (case applyReducers (reducers st) act (clone_state (state st)) of
        (ostate, Inl e) \<Rightarrow> (Some e, st)
      | (ostate, Inr None) \<Rightarrow> (None, st)
      | (ostate, Inr (Some nstate)) \<Rightarrow>
          (let ievts = (case innerEvents nstate of None \<Rightarrow> [] | Some es \<Rightarrow> es);
               ckeys = (case changedKeys nstate of None \<Rightarrow> [] | Some ks \<Rightarrow> ks);
               nstate' = nstate \<lparr> innerEvents := None, changedKeys := None \<rparr>;
               bus = fold (\<lambda>ievt. emit (''action:'' @ ievt) (ActionEvent act nstate' (ievts, ckeys)))
                       (first_seen ievts) (store_events st)
           in (None, st \<lparr> state := nstate', state_ref := Suc (state_ref st),
                          store_events := cascadeEmit (''action:'' @ atype act) act nstate'
                                            (ievts, ckeys) bus \<rparr>)))"

definition dispatchStdOps :: "action \<Rightarrow> ActionStoreImpl \<Rightarrow> error option \<times> ActionStoreImpl" where
  "dispatchStdOps act st = dispatch (act \<lparr> atype := ''std-ops'' \<rparr>) st"

definition listenFor :: "string \<Rightarrow> string \<Rightarrow> ActionStoreImpl \<Rightarrow> ActionStoreImpl" where
  "listenFor event handler st = st \<lparr> store_events := addListener event handler (store_events st) \<rparr>"

subsection \<open>The standard-ops reducer\<close>

text \<open>\<^verbatim>\<open>curVals[key]\<close> on the plain object \<^verbatim>\<open>curVals\<close>.\<close>

definition cur_val :: "(string \<times> json) list \<Rightarrow> string \<Rightarrow> json" where
  "cur_val curVals k = (case lookup curVals k of None \<Rightarrow> JUndef | Some v \<Rightarrow> v)"

text \<open>
  The four loops over \<^verbatim>\<open>remove\<close>, \<^verbatim>\<open>append\<close>, \<^verbatim>\<open>set\<close> and
  \<^verbatim>\<open>increment\<close>. They work on \<^verbatim>\<open>curVals\<close>, \<^verbatim>\<open>newKeys\<close> and the
  counter \<^verbatim>\<open>changed\<close>.
\<close>

type_synonym ops_acc = "(string \<times> json) list \<times> (string \<times> bool) list \<times> nat"

definition remove_step :: "string \<Rightarrow> ops_acc \<Rightarrow> ops_acc" where
  "remove_step k acc =
     (case acc of (curVals, newKeys, changed) \<Rightarrow>
        if cur_val curVals k \<noteq> JUndef
        then (rec_set curVals k JUndef, rec_set newKeys k True, changed + 1)
        else acc)"

definition append_step :: "string \<times> json \<Rightarrow> ops_acc \<Rightarrow> ops_acc" where
  "append_step kv acc =
     (case acc of (curVals, newKeys, changed) \<Rightarrow>
        if cur_val curVals (fst kv) = JUndef
        then (rec_set curVals (fst kv) (snd kv), rec_set newKeys (fst kv) True, changed + 1)
        else acc)"

definition set_step :: "string \<times> json \<Rightarrow> ops_acc \<Rightarrow> ops_acc" where
  "set_step kv acc =
     (case acc of (curVals, newKeys, changed) \<Rightarrow>
        (rec_set curVals (fst kv) (snd kv), rec_set newKeys (fst kv) True, changed + 1))"

definition increment_step :: "string \<times> int \<Rightarrow> ops_acc \<Rightarrow> ops_acc" where
  "increment_step kv acc =
     (case acc of (curVals, newKeys, changed) \<Rightarrow>
        (case cur_val curVals (fst kv) of
           JNum n \<Rightarrow> (rec_set curVals (fst kv) (JNum (n + snd kv)), newKeys, changed + 1)
         | _ \<Rightarrow> acc))"

definition run_ops :: "action \<Rightarrow> (string \<times> json) list \<Rightarrow> ops_acc" where
  "run_ops act curVals =
     fold increment_step (case increment_op act of None \<Rightarrow> [] | Some m \<Rightarrow> m)
       (fold set_step (case set_op act of None \<Rightarrow> [] | Some m \<Rightarrow> m)
          (fold append_step (case append_op act of None \<Rightarrow> [] | Some m \<Rightarrow> m)
             (fold remove_step (case remove_op act of None \<Rightarrow> [] | Some ks \<Rightarrow> ks)
                (curVals, [], 0))))"

text \<open>The callbacks that write the changed keys into the resolved node.\<close>

definition write_key :: "string \<Rightarrow> json \<Rightarrow> json \<Rightarrow> error + json" where
  "write_key k v ptr = (if v = JUndef then delete_prop ptr k else set_prop ptr k v)"

definition commit_keys :: "(string \<times> json) list \<Rightarrow> string list \<Rightarrow> json \<Rightarrow> error + json" where
  "commit_keys curVals ks ptr =
     fold (\<lambda>k acc. ebind acc (write_key k (cur_val curVals k))) ks (Inr ptr)"

definition custom_insert :: "json \<Rightarrow> json \<Rightarrow> error + json" where
  "custom_insert subgraph ptr =
     (if \<not> truthy subgraph then Inr ptr
      else fold (\<lambda>k acc. ebind acc (write_key k (get subgraph k))) (keys_of subgraph) (Inr ptr))"

definition change_events :: "string \<Rightarrow> string list \<Rightarrow> string list" where
  "change_events path ks =
     map (\<lambda>k. ''std-ops:change:'' @ path @ '':'' @ k) ks
       @ [''std-ops:change:'' @ path, ''std-ops:change'']"

text \<open>
  The second resolution of the path, on the shallow copy \<^verbatim>\<open>nstate\<close>, with the
  callback. The copy shares every nested node with the state the reducer received, so
  what the callback and the walk change below the root is changed in that state too;
  what the callback changes at the root itself is changed in the copy only. The result
  is the received state after the call, and the error thrown or the copy.
\<close>

definition commit_copy :: "tstate \<Rightarrow> string \<Rightarrow> (json \<Rightarrow> error + json)
                            \<Rightarrow> tstate \<times> (error + tstate)" where
  "commit_copy st path insertFn =
     (case getDataByPath (JObj (props st)) path insertFn of
        (root, Inl e) \<Rightarrow>
          (case resolve (JObj (props st)) path of
             (root0, Inr (loc, node)) \<Rightarrow> (if loc = [] then st else st \<lparr> props := spread root \<rparr>, Inl e)
           | (root0, Inl e0) \<Rightarrow> (st \<lparr> props := spread root \<rparr>, Inl e))
      | (root, Inr (loc, node)) \<Rightarrow>
          (if loc = [] then st else st \<lparr> props := spread root \<rparr>, Inr (st \<lparr> props := spread root \<rparr>)))"

definition standardOpsReducer :: reducer where
  "standardOpsReducer act st =
     (if atype act \<noteq> ''std-ops'' then (st, Inr Undefined)
      else
        (let path = (case apath act of None \<Rightarrow> ''.'' | Some p \<Rightarrow> p) in
         case resolve (JObj (props st)) path of
           (root1, Inl e) \<Rightarrow> (st \<lparr> props := spread root1 \<rparr>, Inl e)
         | (root1, Inr (loc1, node1)) \<Rightarrow>
             (let st1 = st \<lparr> props := spread root1 \<rparr> in
              case customOp act of
                Some f \<Rightarrow>
                  (case resolve (JObj (props st1)) path of
                     (root2, Inl e) \<Rightarrow> (st1 \<lparr> props := spread root2 \<rparr>, Inl e)
                   | (root2, Inr (loc2, node2)) \<Rightarrow>
                       (let subgraph = (if nullish (f node2) then JObj [] else f node2);
                            ks = (if truthy subgraph then map fst (fold (\<lambda>k nk. rec_set nk k True)
                                                                     (keys_of subgraph) [])
                                  else [])
                        in case commit_copy st1 path (custom_insert subgraph) of
                             (st2, Inl e) \<Rightarrow> (st2, Inl e)
                           | (st2, Inr nstate) \<Rightarrow>
                               if (if truthy subgraph then keys_of subgraph else []) = []
                               then (st2, Inr Undefined)
                               else (st2, Inr (Object (nstate
                                       \<lparr> innerEvents := Some (change_events path
                                                          (if truthy subgraph then keys_of subgraph else [])),
                                         changedKeys := Some ks \<rparr>)))))
              | None \<Rightarrow>
                  (case run_ops act (spread node1) of
                     (curVals, newKeys, changed) \<Rightarrow>
                       if changed = 0 then (st1, Inr Undefined)
                       else
                         (case commit_copy st1 path (commit_keys curVals (map fst newKeys)) of
                            (st2, Inl e) \<Rightarrow> (st2, Inl e)
                          | (st2, Inr nstate) \<Rightarrow>
                              (st2, Inr (Object (nstate
                                 \<lparr> innerEvents := Some (change_events path (map fst newKeys)),
                                   changedKeys := Some (map fst newKeys) \<rparr>))))))))"

section \<open>Values and orders the statements use\<close>

text \<open>The order of \<^verbatim>\<open>getScopes\<close>: longer scopes first, equally long ones ascending.\<close>

definition scope_before :: "string \<Rightarrow> string \<Rightarrow> bool" where
  "scope_before a b = (length b < length a \<or> (length a = length b \<and> a \<le> b))"









text \<open>A bus on which no handler is bound to any topic.\<close>

definition no_listeners :: "'p EventBus \<Rightarrow> bool" where
  "no_listeners bus = list_all (\<lambda>topic. snd topic = []) (handlerMap bus)"

text \<open>
  A context made from \<^verbatim>\<open>data = {a: 1, b: {c: 2}}\<close>, with a handler bound to scope
  \<^verbatim>\<open>b\<close> and name \<^verbatim>\<open>c\<close>, one bound to scope \<^verbatim>\<open>b\<close>, and one bound to
  the topic \<^verbatim>\<open>*\<close> of the update bus.
\<close>

definition abc_context :: FHContext where
  "abc_context =
     bindToUpdatedScope ''onAny'' ''*'' None
       (bindToUpdatedScope ''onScope'' ''b'' None
          (bindToUpdatedScope ''onField'' ''b'' (Some ''c'')
             (makeFHContext (Some (JObj [(''a'', JNum 1), (''b'', JObj [(''c'', JNum 2)])])) None)))"

text \<open>A \<^verbatim>\<open>std-ops\<close> action without operations, and a state without transient fields.\<close>

definition std_ops :: action where
  "std_ops = \<lparr> atype = ''std-ops'', apath = None, customOp = None, remove_op = None,
               append_op = None, set_op = None, increment_op = None \<rparr>"

definition plain_state :: "(string \<times> json) list \<Rightarrow> tstate" where
  "plain_state ps = \<lparr> props = ps, innerEvents = None, changedKeys = None \<rparr>"

section \<open>Properties of the Path Resolver\<close>

text \<open>
  C10. On the root \<^verbatim>\<open>{items: []}\<close> the path \<^verbatim>\<open>items[]\<close> is resolved twice,
  the second time on the root as the first resolution left it. Each resolution appends
  a fresh empty object to \<^verbatim>\<open>items\<close> and returns it: the first returns the
  element at index 0, the second the element at index 1, and \<^verbatim>\<open>items\<close> has
  two elements afterwards. Resolving a push path is therefore not idempotent.
\<close>

theorem push_path_resolved_twice:
  "resolve (JObj [(''items'', JArr [] [])]) ''items[]''
     = (JObj [(''items'', JArr [JObj []] [])], Inr ([''items'', ''0''], JObj []))
   \<and> resolve (fst (resolve (JObj [(''items'', JArr [] [])]) ''items[]'')) ''items[]''
     = (JObj [(''items'', JArr [JObj [], JObj []] [])], Inr ([''items'', ''1''], JObj []))
   \<and> at (fst (resolve (fst (resolve (JObj [(''items'', JArr [] [])]) ''items[]'')) ''items[]''))
        [''items''] = JArr [JObj [], JObj []] []"
  by code_simp

























































section \<open>Properties of the Structural Differ\<close>

text \<open>
  C2. The claim: \<open>hasDiff\<close> is true exactly when \<open>diffs\<close> is not empty, and the
  single entry recorded when exactly one document is \<^verbatim>\<open>null\<close> comes with
  \<open>hasDiff = true\<close>. The code records that entry without setting the flag. Evaluated:
  for \<^verbatim>\<open>computeDiff(null, {a: 1})\<close> the result has one entry, at the empty path,
  and \<open>hasDiff = false\<close>; so has the result for \<^verbatim>\<open>{a: null}\<close> against
  \<^verbatim>\<open>{a: {b: 1}}\<close>, where the recursion meets the \<^verbatim>\<open>null\<close> one level down.
\<close>

theorem computeDiff_null_side_keeps_flag:
  "computeDiff JNull (JObj [(''a'', JNum 1)]) [] no_diff
     = \<lparr> hasDiff = False, diffs = [([], (JNull, JObj [(''a'', JNum 1)]))] \<rparr>
   \<and> computeDiff (JObj [(''a'', JNull)]) (JObj [(''a'', JObj [(''b'', JNum 1)])]) [] no_diff
     = \<lparr> hasDiff = False, diffs = [(''a'', (JNull, JObj [(''b'', JNum 1)]))] \<rparr>"
  by code_simp

section \<open>Properties of the Scope Collector\<close>

lemma compareScopes_le: "compareScopes a b \<le> 0 \<longleftrightarrow> scope_before a b"
  by (auto simp: compareScopes_def sortString_def scope_before_def)

lemma scope_before_total: "scope_before a b \<or> scope_before b a"
  by (auto simp: scope_before_def)

lemma scope_before_trans: "scope_before a b \<Longrightarrow> scope_before b c \<Longrightarrow> scope_before a c"
  by (auto simp: scope_before_def)

lemma set_insert_by: "set (insert_by cmp x xs) = insert x (set xs)"
  by (induction xs) auto

lemma mset_insert_by: "mset (insert_by cmp x xs) = add_mset x (mset xs)"
  by (induction xs) auto

lemma sorted_insert_by:
  "sorted_wrt scope_before xs \<Longrightarrow> sorted_wrt scope_before (insert_by compareScopes x xs)"
proof (induction xs)
  case Nil
  then show ?case by simp
next
  case (Cons y ys)
  show ?case
  proof (cases "compareScopes x y \<le> 0")
    case True
    then have "scope_before x y" by (simp add: compareScopes_le)
    with Cons.prems show ?thesis using True by (auto intro: scope_before_trans)
  next
    case False
    then have "scope_before y x" using scope_before_total [of x y] by (simp add: compareScopes_le)
    with Cons show ?thesis using False by (auto simp: set_insert_by)
  qed
qed

lemma sorted_sort_by: "sorted_wrt scope_before (sort_by compareScopes xs)"
  by (induction xs) (auto simp: sort_by_def sorted_insert_by)

lemma mset_sort_by: "mset (sort_by cmp xs) = mset xs"
  by (induction xs) (auto simp: sort_by_def mset_insert_by)

text \<open>
  C6. On a fresh collector, \<^verbatim>\<open>addScope('contact/email', 'primary')\<close> followed by
  \<^verbatim>\<open>getScopes()\<close> gives \<^verbatim>\<open>contact/email/primary\<close>,
  \<^verbatim>\<open>contact/email/*\<close>, \<^verbatim>\<open>contact/email\<close>, \<^verbatim>\<open>contact\<close>, in this
  order. For every collector, \<^verbatim>\<open>getScopes()\<close> returns the recorded scopes
  rearranged (each as often as it is recorded, that is once), sorted by descending
  length and, among equally long scopes, in ascending lexicographic order.
\<close>

theorem getScopes_longest_first:
  "getScopes (fst (addScope [] ''contact/email'' (Some ''primary'')))
     = [''contact/email/primary'', ''contact/email/*'', ''contact/email'', ''contact'']
   \<and> sorted_wrt scope_before (getScopes qScopes)
   \<and> mset (getScopes qScopes) = mset (map fst qScopes)"
proof -
  have "getScopes (fst (addScope [] ''contact/email'' (Some ''primary'')))
     = [''contact/email/primary'', ''contact/email/*'', ''contact/email'', ''contact'']"
    by code_simp
  then show ?thesis
    by (simp add: getScopes_def sorted_sort_by mset_sort_by)
qed

section \<open>Properties of the Document Context\<close>

text \<open>
  C1. The claim: on a context with \<^verbatim>\<open>data = {a: 1, b: {c: 2}}\<close>,
  \<^verbatim>\<open>setControlValue('c', 3, 'b')\<close> calls the handler bound to \<^verbatim>\<open>b/c\<close>, then
  the handler bound to \<^verbatim>\<open>b\<close>, then the wildcard handler, each once. Evaluated:
  the call diffs the whole document under the prefix \<^verbatim>\<open>b\<close>, so the changed path
  is \<^verbatim>\<open>b/b/c\<close>; the bus emits on \<^verbatim>\<open>b/b/c\<close>, \<^verbatim>\<open>b/b\<close>, \<^verbatim>\<open>b\<close>
  and \<^verbatim>\<open>*\<close>. The handler bound to \<^verbatim>\<open>b/c\<close> is never called, the handler
  bound to \<^verbatim>\<open>b\<close> is called once, and the wildcard handler is called five times,
  first before the handler bound to \<^verbatim>\<open>b\<close>. Nothing is emitted on the bus
  \<^verbatim>\<open>events\<close>.
\<close>

theorem setControlValue_scoped_cascade:
  "fst (setControlValue ''c'' (JNum 3) ''b'' abc_context) = None
   \<and> map fst (emitted (scopedUpdateBus (snd (setControlValue ''c'' (JNum 3) ''b'' abc_context))))
     = [''b/b/c'', ''b/b'', ''b'', ''*'']
   \<and> map (\<lambda>call. (fst call, fst (snd call)))
        (called (scopedUpdateBus (snd (setControlValue ''c'' (JNum 3) ''b'' abc_context))))
     = [(''onAny'', ''b/b/c''), (''onAny'', ''b/b''), (''onScope'', ''b''), (''onAny'', ''b''),
        (''onAny'', ''*''), (''onAny'', ''*'')]
   \<and> emitted (events (snd (setControlValue ''c'' (JNum 3) ''b'' abc_context))) = []
   \<and> getData (snd (setControlValue ''c'' (JNum 3) ''b'' abc_context))
     = JObj [(''a'', JNum 1), (''b'', JObj [(''c'', JNum 3)])]"
  by code_simp

text \<open>
  The sibling operations diff with the right prefix: after
  \<^verbatim>\<open>updateControlValue({scope: 'b', name: 'c', value: '3'})\<close>, and after
  \<^verbatim>\<open>setData({c: 3}, 'b')\<close>, the handler bound to \<^verbatim>\<open>b/c\<close> is the first one
  called.
\<close>

lemma sibling_updates_reach_the_field_handler:
  "map (\<lambda>call. (fst call, fst (snd call)))
        (called (scopedUpdateBus (snd (updateControlValue ''b'' ''c'' (JStr ''3'') False False abc_context))))
     = [(''onField'', ''b/c''), (''onAny'', ''b/c''), (''onScope'', ''b''), (''onAny'', ''b''),
        (''onAny'', ''*''), (''onAny'', ''*'')]
   \<and> map (\<lambda>call. (fst call, fst (snd call)))
        (called (scopedUpdateBus (snd (setData (JObj [(''c'', JNum 3)]) ''b'' abc_context))))
     = [(''onField'', ''b/c''), (''onAny'', ''b/c''), (''onScope'', ''b''), (''onAny'', ''b''),
        (''onAny'', ''*''), (''onAny'', ''*'')]"
  by code_simp

text \<open>
  C3. The claim: \<^verbatim>\<open>setInitial(newData, scope)\<close> merges the keys of
  \<^verbatim>\<open>newData\<close> into the node of the initial snapshot at \<^verbatim>\<open>scope\<close> and emits
  \<^verbatim>\<open>set-initial\<close> with the diff. The code never reads \<^verbatim>\<open>newData\<close>: the
  result of the call is the same for every \<^verbatim>\<open>newData\<close>. Evaluated on a context
  with initial snapshot \<^verbatim>\<open>{a: 1}\<close>: after \<^verbatim>\<open>setInitial({a: 2}, '.')\<close> the
  snapshot is still \<^verbatim>\<open>{a: 1}\<close>, and the one event emitted, \<^verbatim>\<open>set-initial\<close>,
  carries an empty diff. The update bus is not used.
\<close>

theorem setInitial_leaves_snapshot:
  "setInitial newData scope c = setInitial otherData scope c
   \<and> getInitial (snd (setInitial (JObj [(''a'', JNum 2)]) ''.''
                        (makeFHContext (Some (JObj [(''a'', JNum 1)])) None)))
     = JObj [(''a'', JNum 1)]
   \<and> emitted (events (snd (setInitial (JObj [(''a'', JNum 2)]) ''.''
                              (makeFHContext (Some (JObj [(''a'', JNum 1)])) None))))
     = [(''set-initial'', SetInitial \<lparr> hasDiff = False, diffs = [] \<rparr> ''.'')]
   \<and> emitted (scopedUpdateBus (snd (setInitial (JObj [(''a'', JNum 2)]) ''.''
                                       (makeFHContext (Some (JObj [(''a'', JNum 1)])) None))))
     = []"
proof -
  have "setInitial newData scope c = setInitial otherData scope c"
    by (simp add: setInitial_def)
  moreover have "getInitial (snd (setInitial (JObj [(''a'', JNum 2)]) ''.''
                        (makeFHContext (Some (JObj [(''a'', JNum 1)])) None)))
     = JObj [(''a'', JNum 1)]"
    by code_simp
  moreover have "emitted (events (snd (setInitial (JObj [(''a'', JNum 2)]) ''.''
                              (makeFHContext (Some (JObj [(''a'', JNum 1)])) None))))
     = [(''set-initial'', SetInitial \<lparr> hasDiff = False, diffs = [] \<rparr> ''.'')]"
    by code_simp
  moreover have "emitted (scopedUpdateBus (snd (setInitial (JObj [(''a'', JNum 2)]) ''.''
                                       (makeFHContext (Some (JObj [(''a'', JNum 1)])) None))))
     = []"
    by code_simp
  ultimately show ?thesis by simp
qed

lemma triggerUpdate_frame:
  "heap (snd (triggerUpdate d c)) = heap c \<and> ref_data (snd (triggerUpdate d c)) = ref_data c
   \<and> data (snd (triggerUpdate d c)) = data c"
  by (auto simp: triggerUpdate_def Let_def split: sum.splits)

lemma updateControlValue_frame:
  "a \<noteq> data c \<Longrightarrow> heap (snd (updateControlValue scope nm val isArr isArrRemove c)) a = heap c a"
  by (auto simp: updateControlValue_def triggerUpdate_frame write_heap_def
           split: sum.splits prod.splits)

lemma updateControlValue_names:
  "ref_data (snd (updateControlValue scope nm val isArr isArrRemove c)) = ref_data c"
  by (auto simp: updateControlValue_def triggerUpdate_frame write_heap_def
           split: sum.splits prod.splits)

lemma updateControlValue_stale:
  "ref_data c \<noteq> data c \<Longrightarrow>
   getData (snd (updateControlValue scope nm val isArr isArrRemove c)) = getData c"
  by (simp add: getData_def updateControlValue_names updateControlValue_frame)

lemma reset_moves_ref_data:
  "fst (reset c) = None \<Longrightarrow>
   ref_data (snd (reset c)) = fresh c \<and> data (snd (reset c)) = data c"
  by (auto simp: reset_def write_heap_def split: sum.splits)

lemma fresh_not_data: "fresh c \<noteq> data c"
  by (simp add: fresh_def)

text \<open>
  C5. For every context without handlers on its buses on which \<^verbatim>\<open>reset()\<close>
  returns: the constant \<^verbatim>\<open>data\<close> still refers to the object it referred to,
  \<^verbatim>\<open>ref.data\<close> refers to another one, and an \<^verbatim>\<open>updateControlValue\<close>
  that follows at once leaves \<^verbatim>\<open>ref.data\<close> referring to that object and the
  object as it is, so the document \<^verbatim>\<open>getData()\<close> returns is the same before
  and after the call. The object \<^verbatim>\<open>reset()\<close> has just made shares no node with
  any other, so that documents are held by value loses nothing here.
\<close>

theorem update_after_reset_is_stale:
  "fst (reset c) = None \<and> no_listeners (events c) \<and> no_listeners (scopedUpdateBus c) \<longrightarrow>
      data (snd (reset c)) = data c
      \<and> ref_data (snd (reset c)) \<noteq> data c
      \<and> ref_data (snd (updateControlValue scope nm val isArr isArrRemove (snd (reset c))))
          = ref_data (snd (reset c))
      \<and> heap (snd (updateControlValue scope nm val isArr isArrRemove (snd (reset c))))
             (ref_data (snd (reset c)))
          = heap (snd (reset c)) (ref_data (snd (reset c)))
      \<and> getData (snd (updateControlValue scope nm val isArr isArrRemove (snd (reset c))))
          = getData (snd (reset c))"
proof
  assume a: "fst (reset c) = None \<and> no_listeners (events c) \<and> no_listeners (scopedUpdateBus c)"
  then have r: "ref_data (snd (reset c)) = fresh c" and d: "data (snd (reset c)) = data c"
    using reset_moves_ref_data [of c] by simp_all
  from r d have n: "ref_data (snd (reset c)) \<noteq> data (snd (reset c))"
    using fresh_not_data [of c] by simp
  from n have h: "heap (snd (updateControlValue scope nm val isArr isArrRemove (snd (reset c))))
             (ref_data (snd (reset c)))
          = heap (snd (reset c)) (ref_data (snd (reset c)))"
    by (rule updateControlValue_frame)
  from n have g: "getData (snd (updateControlValue scope nm val isArr isArrRemove (snd (reset c))))
          = getData (snd (reset c))"
    by (rule updateControlValue_stale)
  from d n h g show "data (snd (reset c)) = data c
      \<and> ref_data (snd (reset c)) \<noteq> data c
      \<and> ref_data (snd (updateControlValue scope nm val isArr isArrRemove (snd (reset c))))
          = ref_data (snd (reset c))
      \<and> heap (snd (updateControlValue scope nm val isArr isArrRemove (snd (reset c))))
             (ref_data (snd (reset c)))
          = heap (snd (reset c)) (ref_data (snd (reset c)))
      \<and> getData (snd (updateControlValue scope nm val isArr isArrRemove (snd (reset c))))
          = getData (snd (reset c))"
    by (simp add: updateControlValue_names)
qed

theorem update_after_reset_is_stale_witness:
  "fst (reset (makeFHContext (Some (JObj [(''a'', JNum 1)])) None)) = None
   \<and> no_listeners (events (makeFHContext (Some (JObj [(''a'', JNum 1)])) None))
   \<and> no_listeners (scopedUpdateBus (makeFHContext (Some (JObj [(''a'', JNum 1)])) None))
   \<and> getData (snd (updateControlValue ''.'' ''a'' (JStr ''x'') False False
                     (snd (reset (makeFHContext (Some (JObj [(''a'', JNum 1)])) None)))))
     = JObj [(''a'', JNum 1)]
   \<and> heap (snd (updateControlValue ''.'' ''a'' (JStr ''x'') False False
                     (snd (reset (makeFHContext (Some (JObj [(''a'', JNum 1)])) None)))))
          (data (makeFHContext (Some (JObj [(''a'', JNum 1)])) None))
     = JObj [(''a'', JStr ''x'')]"
proof -
  have r: "fst (reset (makeFHContext (Some (JObj [(''a'', JNum 1)])) None)) = None"
    by code_simp
  have l: "no_listeners (events (makeFHContext (Some (JObj [(''a'', JNum 1)])) None))
           \<and> no_listeners (scopedUpdateBus (makeFHContext (Some (JObj [(''a'', JNum 1)])) None))"
    by (simp add: no_listeners_def makeFHContext_def makeEventBus_def Let_def)
  have g: "getData (snd (reset (makeFHContext (Some (JObj [(''a'', JNum 1)])) None)))
             = JObj [(''a'', JNum 1)]"
    by code_simp
  have s: "heap (snd (updateControlValue ''.'' ''a'' (JStr ''x'') False False
                     (snd (reset (makeFHContext (Some (JObj [(''a'', JNum 1)])) None)))))
          (data (makeFHContext (Some (JObj [(''a'', JNum 1)])) None))
     = JObj [(''a'', JStr ''x'')]"
    by code_simp
  from r l have "getData (snd (updateControlValue ''.'' ''a'' (JStr ''x'') False False
                     (snd (reset (makeFHContext (Some (JObj [(''a'', JNum 1)])) None)))))
     = getData (snd (reset (makeFHContext (Some (JObj [(''a'', JNum 1)])) None)))"
    using update_after_reset_is_stale
            [of "makeFHContext (Some (JObj [(''a'', JNum 1)])) None" "''.''" "''a''" "JStr ''x''"
                False False]
    by blast
  with r l g s show ?thesis by simp
qed

text \<open>
  \<^verbatim>\<open>resetControl\<close> is different: it writes into \<^verbatim>\<open>ref.data\<close>. After
  \<^verbatim>\<open>reset()\<close> and \<^verbatim>\<open>setControlValue('a', 5)\<close> on a context made from
  \<^verbatim>\<open>{a: 1}\<close>, \<^verbatim>\<open>getData()\<close> is \<^verbatim>\<open>{a: 5}\<close> before
  \<^verbatim>\<open>resetControl('a')\<close> and \<^verbatim>\<open>{a: 1}\<close> after it. Right after
  \<^verbatim>\<open>reset()\<close>, \<^verbatim>\<open>resetControl('b', 'x')\<close> creates the scope \<^verbatim>\<open>x\<close> in the
  document \<^verbatim>\<open>getData()\<close> returns.
\<close>

theorem resetControl_after_reset_counterexample:
  "getData (snd (setControlValue ''a'' (JNum 5) ''.''
                  (snd (reset (makeFHContext (Some (JObj [(''a'', JNum 1)])) None)))))
     = JObj [(''a'', JNum 5)]
   \<and> getData (snd (resetControl ''a'' ''.''
                  (snd (setControlValue ''a'' (JNum 5) ''.''
                          (snd (reset (makeFHContext (Some (JObj [(''a'', JNum 1)])) None)))))))
     = JObj [(''a'', JNum 1)]
   \<and> getData (snd (reset (makeFHContext (Some (JObj [(''a'', JNum 1)])) None)))
     = JObj [(''a'', JNum 1)]
   \<and> getData (snd (resetControl ''b'' ''x''
                  (snd (reset (makeFHContext (Some (JObj [(''a'', JNum 1)])) None)))))
     = JObj [(''a'', JNum 1), (''x'', JObj [(''b'', JUndef)])]"
  by code_simp

section \<open>Properties of the Action Store\<close>

text \<open>
  C4. The claim: after \<^verbatim>\<open>resetState(s)\<close> the state of the store is derived from
  \<open>s\<close>. The code passes \<^verbatim>\<open>this.state\<close> to the reducers and never reads its
  parameter: the result of the call is the same for every \<open>s\<close>. Evaluated on a store
  without reducers and with state \<^verbatim>\<open>{a: 1}\<close>: after \<^verbatim>\<open>resetState({b: 2})\<close>
  the state is \<^verbatim>\<open>{a: 1}\<close>, still the same object, and \<^verbatim>\<open>state-reset\<close> has
  been emitted with it.
\<close>

theorem resetState_keeps_previous_state:
  "resetState s st = resetState s' st
   \<and> state (snd (resetState (plain_state [(''b'', JNum 2)])
                   (makeActionStore (plain_state [(''a'', JNum 1)]) [])))
     = plain_state [(''a'', JNum 1)]
   \<and> state_ref (snd (resetState (plain_state [(''b'', JNum 2)])
                       (makeActionStore (plain_state [(''a'', JNum 1)]) [])))
     = state_ref (makeActionStore (plain_state [(''a'', JNum 1)]) [])
   \<and> emitted (store_events (snd (resetState (plain_state [(''b'', JNum 2)])
                                   (makeActionStore (plain_state [(''a'', JNum 1)]) []))))
     = [(''state-reset'', StateReset (plain_state [(''a'', JNum 1)]))]"
proof -
  have "resetState s st = resetState s' st"
    by (simp add: resetState_def)
  moreover have "state (snd (resetState (plain_state [(''b'', JNum 2)])
                   (makeActionStore (plain_state [(''a'', JNum 1)]) [])))
     = plain_state [(''a'', JNum 1)]"
    by code_simp
  moreover have "state_ref (snd (resetState (plain_state [(''b'', JNum 2)])
                       (makeActionStore (plain_state [(''a'', JNum 1)]) [])))
     = state_ref (makeActionStore (plain_state [(''a'', JNum 1)]) [])"
    by code_simp
  moreover have "emitted (store_events (snd (resetState (plain_state [(''b'', JNum 2)])
                                   (makeActionStore (plain_state [(''a'', JNum 1)]) []))))
     = [(''state-reset'', StateReset (plain_state [(''a'', JNum 1)]))]"
    by (simp add: resetState_def makeActionStore_def applyReducers_def emit_def makeEventBus_def
                  clone_state_def plain_state_def)
  ultimately show ?thesis by simp
qed

text \<open>
  C9. The \<^verbatim>\<open>std-ops\<close> action \<^verbatim>\<open>{append: {a: 'new-a', e: 'five'}}\<close> against
  the state \<^verbatim>\<open>{a: 'one'}\<close>: the reducer returns a new state in which \<^verbatim>\<open>a\<close> is
  still \<^verbatim>\<open>'one'\<close> and \<^verbatim>\<open>e\<close> is \<^verbatim>\<open>'five'\<close>, with the inner events
  \<^verbatim>\<open>std-ops:change:.:e\<close>, \<^verbatim>\<open>std-ops:change:.\<close>, \<^verbatim>\<open>std-ops:change\<close> in
  this order and the changed key \<^verbatim>\<open>e\<close>. Dispatched on a store with this reducer,
  the action leaves that state in the store, without the transient fields, and the
  store emits the three inner events under \<^verbatim>\<open>action:\<close> and then
  \<^verbatim>\<open>action:std-ops\<close> and \<^verbatim>\<open>action\<close>.
\<close>

theorem append_sets_absent_keys_only:
  "standardOpsReducer
       (std_ops \<lparr> append_op := Some [(''a'', JStr ''new-a''), (''e'', JStr ''five'')] \<rparr>)
       (plain_state [(''a'', JStr ''one'')])
     = (plain_state [(''a'', JStr ''one'')],
        Inr (Object \<lparr> props = [(''a'', JStr ''one''), (''e'', JStr ''five'')],
                      innerEvents = Some [''std-ops:change:.:e'', ''std-ops:change:.'',
                                          ''std-ops:change''],
                      changedKeys = Some [''e''] \<rparr>))
   \<and> state (snd (dispatch
                   (std_ops \<lparr> append_op := Some [(''a'', JStr ''new-a''), (''e'', JStr ''five'')] \<rparr>)
                   (makeActionStore (plain_state [(''a'', JStr ''one'')]) [standardOpsReducer])))
     = plain_state [(''a'', JStr ''one''), (''e'', JStr ''five'')]
   \<and> map fst (emitted (store_events (snd (dispatch
                   (std_ops \<lparr> append_op := Some [(''a'', JStr ''new-a''), (''e'', JStr ''five'')] \<rparr>)
                   (makeActionStore (plain_state [(''a'', JStr ''one'')]) [standardOpsReducer])))))
     = [''action:std-ops:change:.:e'', ''action:std-ops:change:.'', ''action:std-ops:change'',
        ''action:std-ops'', ''action'']"
  by code_simp












end
